theory Spec2Isabelle
  imports Main "HOL-Library.Sublist"
begin

section \<open>Configuration resolution of graphile-migrate (src/commands/_common.ts)\<close>

text \<open>
  The module locates and loads the \<open>.gmrc\<close> settings file. Everything it does goes
  through the file system, the JSON5 parser and the dynamic module loader of Node, so
  the embedding takes those as the fields of a record \<open>world\<close> and returns, beside the
  outcome of each function, the list of the external calls it made, in order.
  Strings are byte lists; the only string tests of the source compare against ASCII
  suffixes, for which the UTF-8 bytes and the UTF-16 code units of JavaScript agree.
\<close>

subsection \<open>Values, exceptions and the environment\<close>

text \<open>
  A JavaScript value that is not a thenable: \<open>undefined\<close>, or any other value, of which
  \<open>'v\<close> is the type. The promise of an \<open>async\<close> function is only ever fulfilled with
  such a value.
\<close>

datatype 'v jsval = Undefined | Defined 'v

text \<open>
  A value caught by \<open>catch (e)\<close> around \<open>fsp.readFile\<close> or \<open>JSON5.parse\<close>. The source
  reads of it only \<open>e instanceof Error\<close>, \<open>e.message\<close> and \<open>String(e)\<close>: an
  \<open>ErrorObject\<close> is an instance of \<open>Error\<close> with its message, its stack (\<open>None\<close> when
  undefined) and its string form; a \<open>NonError\<close> is any other thrown value, with its
  string form.
\<close>

datatype exn =
    ErrorObject string "string option" string
  | NonError string

fun instanceof_Error :: "exn \<Rightarrow> bool" where
  "instanceof_Error (ErrorObject m st s) = True"
| "instanceof_Error (NonError s) = False"

fun message :: "exn \<Rightarrow> string" where
  "message (ErrorObject m st s) = m"
| "message (NonError s) = []"

fun String :: "exn \<Rightarrow> string" where
  "String (ErrorObject m st s) = s"
| "String (NonError s) = s"

text \<open>
  A value thrown by the code of a settings module, which may throw anything. The
  \<open>catch\<close> block of \<open>tryRequire\<close> evaluates
  \<open>e instanceof Error && e.stack ? e.stack.replace(..) : String(e)\<close> inside a template
  literal, and each step of that can itself throw; what is thrown there is again an
  arbitrary value.

  What \<open>e.stack\<close> is: \<open>StackFalsy\<close> for \<open>undefined\<close>, \<open>null\<close> and every other falsy
  value that is not a string; \<open>StackString\<close> for a string (the empty one is falsy);
  \<open>StackOther\<close> for everything else, such as the number 42, with what calling
  \<open>replace\<close> on it and converting the result to a string gives: a thrown value
  (\<open>Inl\<close>, as for 42, which has no \<open>replace\<close>) or a text.
\<close>

datatype 'r stack_value =
    StackFalsy
  | StackString string
  | StackOther "'r + string"

text \<open>
  \<open>ErrorInstance\<close> is an instance of \<open>Error\<close> with its stack and with what \<open>String(e)\<close>
  gives, a text or a thrown value (\<open>Inl\<close>, when \<open>toString\<close> throws); \<open>OtherValue\<close> is a
  value that is not an instance, with what \<open>String(e)\<close> gives (\<open>Inl\<close> for an object
  without conversion to a primitive, such as \<open>Object.create(null)\<close>); \<open>Inscrutable\<close> is
  a value on which already \<open>e instanceof Error\<close> or reading \<open>e.stack\<close> throws.
\<close>

datatype thrown =
    ErrorInstance "thrown stack_value" "thrown + string"
  | OtherValue "thrown + string"
  | Inscrutable thrown

text \<open>
  How a call of this module ends when it returns no value: with \<open>new Error(msg)\<close> thrown
  by the module itself, with a foreign value that escapes as it is, or not at all (the
  promise of the call never settles).
\<close>

datatype failure =
    Error string
  | Raw thrown
  | NeverSettles

text \<open>
  The \<open>default\<close> member of a loaded module. \<open>tryRequire\<close> is an \<open>async\<close> function and
  returns it without \<open>await\<close>, so a thenable is adopted by the promise of the call after
  the \<open>try\<close> block is left: \<open>Thenable\<close> carries how the adoption ends, with the value
  it is fulfilled with in the end, with the reason it is rejected with, or never.
\<close>

datatype 'v settlement =
    Fulfilled "'v jsval"
  | Rejected thrown
  | Pending

datatype 'v exported =
    Plain "'v jsval"
  | Thenable "'v settlement"

text \<open>A loaded module namespace; the source reads its \<open>default\<close> member only.\<close>

record 'v module =
  default :: "'v exported"

text \<open>
  What \<open>await import(reference)\<close> does: it gives the module, throws, or never resumes
  (a module whose top-level \<open>await\<close> stays pending).
\<close>

datatype 'v imported =
    Loaded "'v module"
  | Threw thrown
  | Hangs

text \<open>
  The calls that touch the file system or load code, as they appear in the trace:
  \<open>fsp.access\<close>, \<open>fsp.readFile\<close> and \<open>import()\<close>, each with its argument.
\<close>

datatype event =
    Access string
  | ReadFile string
  | Import string

text \<open>
  The environment of one call: \<open>load_cwd\<close> is \<open>process.cwd()\<close> when the module was
  evaluated (it fixes the three default paths), \<open>cwd\<close> is \<open>process.cwd()\<close> during the
  call. The other fields are the library functions the source calls; a function of the
  file system or the parser that the source guards with \<open>try\<close> returns \<open>Inl\<close> of the
  thrown value. \<open>path.resolve\<close>, \<open>pathToFileURL\<close> and \<open>process.cwd\<close> are called
  outside every \<open>try\<close> and are taken to return.
\<close>

record 'v world =
  load_cwd :: string
  cwd :: string
  fsp_access :: "string \<Rightarrow> exn + unit"
  fsp_readFile :: "string \<Rightarrow> exn + string"
  JSON5_parse :: "string \<Rightarrow> exn + 'v jsval"
  path_resolve :: "string \<Rightarrow> string \<Rightarrow> string"
  pathToFileURL_href :: "string \<Rightarrow> string"
  dynamic_import :: "string \<Rightarrow> 'v imported"

type_synonym 'a io = "event list \<times> 'a"

definition bind_io :: "'a io \<Rightarrow> ('a \<Rightarrow> 'b io) \<Rightarrow> 'b io" where
  "bind_io m f = (case m of (t, a) \<Rightarrow> (case f a of (t', b) \<Rightarrow> (t @ t', b)))"

subsection \<open>String helpers\<close>

definition apostrophe :: string where
  "apostrophe = [CHR 0x27]"

definition newline :: char where
  "newline = CHR 0x0A"

text \<open>\<open>String.prototype.endsWith\<close> with one argument.\<close>

definition endsWith :: "string \<Rightarrow> string \<Rightarrow> bool" where
  "endsWith s searchString =
     (let len = length s; searchLength = length searchString
      in if len < searchLength then False
         else drop (len - searchLength) s = searchString)"

text \<open>
  The \<open>replace\<close> call of \<open>tryRequire\<close>: every newline becomes a newline followed by
  four spaces.
\<close>

fun reindent :: "string \<Rightarrow> string" where
  "reindent [] = []"
| "reindent (c # cs) =
     (if c = newline then newline # ''    '' @ reindent cs else c # reindent cs)"

subsection \<open>The default locations\<close>

definition DEFAULT_GMRC_PATH :: "'v world \<Rightarrow> string" where
  "DEFAULT_GMRC_PATH w = load_cwd w @ ''/.gmrc''"

definition DEFAULT_GMRCJS_PATH :: "'v world \<Rightarrow> string" where
  "DEFAULT_GMRCJS_PATH w = DEFAULT_GMRC_PATH w @ ''.js''"

definition DEFAULT_GMRC_COMMONJS_PATH :: "'v world \<Rightarrow> string" where
  "DEFAULT_GMRC_COMMONJS_PATH w = DEFAULT_GMRC_PATH w @ ''.cjs''"

subsection \<open>exists\<close>

definition exists :: "'v world \<Rightarrow> string \<Rightarrow> bool io" where
  "exists w path =
     (case fsp_access w path of
        Inr u \<Rightarrow> ([Access path], True)
      | Inl e \<Rightarrow> ([Access path], False))"

subsection \<open>getSettingsFromJSON\<close>

definition cause :: "exn \<Rightarrow> string" where
  "cause e = (if instanceof_Error e then message e else String e)"

definition getSettingsFromJSON :: "'v world \<Rightarrow> string \<Rightarrow> (failure + 'v jsval) io" where
  "getSettingsFromJSON w path =
     (case fsp_readFile w path of
        Inl e \<Rightarrow>
          ([ReadFile path],
           Inl (Error (''Failed to read '' @ apostrophe @ path @ apostrophe @ '': '' @ cause e)))
      | Inr data \<Rightarrow>
          (case JSON5_parse w data of
             Inl e \<Rightarrow>
               ([ReadFile path],
                Inl (Error (''Failed to parse '' @ apostrophe @ path @ apostrophe @ '': ''
                            @ cause e)))
           | Inr v \<Rightarrow> ([ReadFile path], Inr v)))"

subsection \<open>getSettings and its inner tryRequire\<close>

record Options =
  configFile :: "string option"

text \<open>
  The expression inside the template literal of the \<open>catch\<close> block. It yields the text
  to embed, or the value thrown while computing it.
\<close>

definition import_cause :: "thrown \<Rightarrow> thrown + string" where
  "import_cause e =
     (case e of
        Inscrutable x \<Rightarrow> Inl x
      | OtherValue str \<Rightarrow> str
      | ErrorInstance stk str \<Rightarrow>
          (case stk of
             StackFalsy \<Rightarrow> str
           | StackString st \<Rightarrow> if st = [] then str else Inr (reindent st)
           | StackOther replaced \<Rightarrow> replaced))"

definition relativePath :: "'v world \<Rightarrow> string \<Rightarrow> string" where
  "relativePath w path = pathToFileURL_href w (path_resolve w (cwd w) path)"

text \<open>How the promise of an \<open>async\<close> function settles on \<open>return x\<close>.\<close>

definition settle :: "'v exported \<Rightarrow> failure + 'v jsval" where
  "settle x =
     (case x of
        Plain v \<Rightarrow> Inr v
      | Thenable s \<Rightarrow>
          (case s of
             Fulfilled v \<Rightarrow> Inr v
           | Rejected reason \<Rightarrow> Inl (Raw reason)
           | Pending \<Rightarrow> Inl NeverSettles))"

definition tryRequire :: "'v world \<Rightarrow> string \<Rightarrow> (failure + 'v jsval) io" where
  "tryRequire w path =
     (case dynamic_import w (relativePath w path) of
        Loaded m \<Rightarrow> ([Import (relativePath w path)], settle (default m))
      | Hangs \<Rightarrow> ([Import (relativePath w path)], Inl NeverSettles)
      | Threw e \<Rightarrow>
          (case import_cause e of
             Inr text \<Rightarrow>
               ([Import (relativePath w path)],
                Inl (Error (''Failed to import '' @ apostrophe @ relativePath w path
                            @ apostrophe @ ''; error:'' @ [newline] @ ''    '' @ text)))
           | Inl x \<Rightarrow> ([Import (relativePath w path)], Inl (Raw x))))"

definition getSettings :: "'v world \<Rightarrow> Options \<Rightarrow> (failure + 'v jsval) io" where
  "getSettings w options =
     (case configFile options of
        Some cf \<Rightarrow>
          bind_io (exists w cf) (\<lambda>found.
            if \<not> found
            then ([], Inl (Error (''Failed to import '' @ apostrophe @ cf @ apostrophe
                                  @ '': file not found'')))
            else if endsWith cf ''.js'' \<or> endsWith cf ''.cjs'' \<or> endsWith cf ''.mjs''
            then tryRequire w cf
            else getSettingsFromJSON w cf)
      | None \<Rightarrow>
          bind_io (exists w (DEFAULT_GMRC_PATH w)) (\<lambda>found1.
            if found1 then getSettingsFromJSON w (DEFAULT_GMRC_PATH w)
            else bind_io (exists w (DEFAULT_GMRCJS_PATH w)) (\<lambda>found2.
              if found2 then tryRequire w (DEFAULT_GMRCJS_PATH w)
              else bind_io (exists w (DEFAULT_GMRC_COMMONJS_PATH w)) (\<lambda>found3.
                if found3 then tryRequire w (DEFAULT_GMRC_COMMONJS_PATH w)
                else ([], Inl (Error
                  ''No .gmrc file found; please run `graphile-migrate init` first.''))))))"

subsection \<open>getDatabaseName\<close>

text \<open>
  The \<open>database\<close> field of the parsed connection string is typed
  \<open>string | null | undefined\<close>; \<open>parse\<close> is the function of pg-connection-string.
\<close>

datatype database_field = DbUndefined | DbNull | DbString string

fun falsy :: "database_field \<Rightarrow> bool" where
  "falsy DbUndefined = True"
| "falsy DbNull = True"
| "falsy (DbString s) = (s = [])"

text \<open>
  After the guard TypeScript has narrowed \<open>databaseName\<close> to a string; the last branch
  of the \<open>case\<close> is not reachable.
\<close>

definition getDatabaseName :: "(string \<Rightarrow> database_field) \<Rightarrow> string \<Rightarrow> failure + string" where
  "getDatabaseName parse connectionString =
     (let databaseName = parse connectionString
      in if falsy databaseName
         then Inl (Error ''Could not determine database name from connection string.'')
         else (case databaseName of
                 DbString s \<Rightarrow> Inr s
               | _ \<Rightarrow> Inl (Error ''Could not determine database name from connection string.'')))"

subsection \<open>Vocabulary of the specification\<close>



fun is_probe :: "event \<Rightarrow> bool" where
  "is_probe (Access p) = True"
| "is_probe e = False"

fun is_load :: "event \<Rightarrow> bool" where
  "is_load (Access p) = False"
| "is_load e = True"




text \<open>The three code-style suffixes the specification recognises.\<close>

definition code_suffixes :: "string list" where
  "code_suffixes = [''.js'', ''.cjs'', ''.mjs'']"

text \<open>ASCII lower-casing, to say what an upper- or mixed-case variant of a suffix is.\<close>

definition to_lower :: "char \<Rightarrow> char" where
  "to_lower c =
     (case map_of (zip ''ABCDEFGHIJKLMNOPQRSTUVWXYZ'' ''abcdefghijklmnopqrstuvwxyz'') c of
        Some l \<Rightarrow> l
      | None \<Rightarrow> c)"

definition case_variant :: "string \<Rightarrow> string \<Rightarrow> bool" where
  "case_variant v sfx = (map to_lower v = sfx \<and> v \<noteq> sfx)"

subsection \<open>Sample environments\<close>

text \<open>
  A project directory \<open>/proj\<close> holding the given files (path and content) and modules
  (reference and what importing it gives); \<open>{}\<close> is the only text the parser accepts.
\<close>

definition enoent :: exn where
  "enoent = ErrorObject ''ENOENT: no such file or directory''
              (Some ''Error: ENOENT: no such file or directory'')
              ''Error: ENOENT: no such file or directory''"

definition sample_resolve :: "string \<Rightarrow> string \<Rightarrow> string" where
  "sample_resolve base p = (if take 1 p = ''/'' then p else base @ ''/'' @ p)"

text \<open>What importing a reference that names no file throws, and an engine \<open>TypeError\<close>.\<close>

definition module_not_found :: thrown where
  "module_not_found =
     ErrorInstance (StackString ''Error: Cannot find module'') (Inr ''Error: Cannot find module'')"

definition type_error :: "string \<Rightarrow> thrown" where
  "type_error msg =
     ErrorInstance (StackString (''TypeError: '' @ msg)) (Inr (''TypeError: '' @ msg))"

definition sample_world ::
  "(string \<times> string) list \<Rightarrow> (string \<times> nat imported) list \<Rightarrow> nat world" where
  "sample_world files modules =
     \<lparr> load_cwd = ''/proj'',
       cwd = ''/proj'',
       fsp_access = (\<lambda>p. case map_of files p of Some d \<Rightarrow> Inr () | None \<Rightarrow> Inl enoent),
       fsp_readFile = (\<lambda>p. case map_of files p of Some d \<Rightarrow> Inr d | None \<Rightarrow> Inl enoent),
       JSON5_parse = (\<lambda>s. if s = ''{}'' then Inr (Defined 0)
                           else Inl (ErrorObject ''JSON5: invalid character'' None
                                       ''SyntaxError: JSON5: invalid character'')),
       path_resolve = sample_resolve,
       pathToFileURL_href = (\<lambda>p. ''file://'' @ p),
       dynamic_import =
         (\<lambda>u. case map_of modules u of Some r \<Rightarrow> r | None \<Rightarrow> Threw module_not_found) \<rparr>"

text \<open>Nothing exists.\<close>

definition empty_world :: "nat world" where
  "empty_world = sample_world [] []"

text \<open>Both \<open>.gmrc\<close> and \<open>.gmrc.js\<close> exist.\<close>

definition both_world :: "nat world" where
  "both_world =
     sample_world [(''/proj/.gmrc'', ''{}''), (''/proj/.gmrc.js'', ''module.exports = 1'')]
       [(''file:///proj/.gmrc.js'', Loaded \<lparr>default = Plain (Defined 1)\<rparr>)]"

text \<open>Only \<open>.gmrc.js\<close>, respectively only \<open>.gmrc.cjs\<close>, exists.\<close>

definition js_world :: "nat world" where
  "js_world =
     sample_world [(''/proj/.gmrc.js'', ''module.exports = 1'')]
       [(''file:///proj/.gmrc.js'', Loaded \<lparr>default = Plain (Defined 1)\<rparr>)]"

definition cjs_world :: "nat world" where
  "cjs_world =
     sample_world [(''/proj/.gmrc.cjs'', ''module.exports = 2'')]
       [(''file:///proj/.gmrc.cjs'', Loaded \<lparr>default = Plain (Defined 2)\<rparr>)]"

text \<open>
  Explicit files: \<open>conf.json\<close> and \<open>conf.JS\<close> hold data, \<open>conf.mjs\<close> exports 3,
  \<open>empty.js\<close> has no default export, \<open>throws.js\<close> throws a two-line string,
  \<open>broken.js\<close> throws an \<open>Error\<close> with a two-line stack, \<open>bad.json\<close> does not parse.
  The default export of \<open>later.js\<close> is a promise fulfilled with 4, that of \<open>rejects.js\<close>
  a promise rejected with 0, that of \<open>pending.js\<close> a promise that
  stays pending. \<open>numstack.js\<close> throws an \<open>Error\<close> whose stack was set to 42, and
  \<open>bare.js\<close> throws \<open>Object.create(null)\<close>: rendering either cause throws a
  \<open>TypeError\<close>.
\<close>

definition explicit_world :: "nat world" where
  "explicit_world =
     sample_world
       [(''/proj/.gmrc'', ''{}''),
        (''conf.json'', ''{}''), (''conf.JS'', ''{}''), (''conf.mjs'', ''export default 3''),
        (''empty.js'', ''const x = 1''), (''throws.js'', ''throw 0''), (''broken.js'', ''(''),
        (''bad.json'', ''{''),
        (''later.js'', ''export default Promise.resolve(4)''),
        (''rejects.js'', ''export default Promise.reject(0)''),
        (''pending.js'', ''export default new Promise(() => {})''),
        (''numstack.js'', ''throw Object.assign(new Error(), {stack: 42})''), (''bare.js'', ''throw Object.create(null)'')]
       [(''file:///proj/conf.mjs'', Loaded \<lparr>default = Plain (Defined 3)\<rparr>),
        (''file:///proj/empty.js'', Loaded \<lparr>default = Plain Undefined\<rparr>),
        (''file:///proj/throws.js'', Threw (OtherValue (Inr (''one'' @ [newline] @ ''two'')))),
        (''file:///proj/broken.js'',
           Threw (ErrorInstance
                    (StackString (''SyntaxError: Unexpected token'' @ [newline] @ ''    at conf''))
                    (Inr ''SyntaxError: Unexpected token''))),
        (''file:///proj/later.js'', Loaded \<lparr>default = Thenable (Fulfilled (Defined 4))\<rparr>),
        (''file:///proj/rejects.js'',
           Loaded \<lparr>default = Thenable (Rejected (OtherValue (Inr ''0'')))\<rparr>),
        (''file:///proj/pending.js'', Loaded \<lparr>default = Thenable Pending\<rparr>),
        (''file:///proj/numstack.js'',
           Threw (ErrorInstance (StackOther (Inl (type_error ''e.stack.replace is not a function'')))
                    (Inr ''Error''))),
        (''file:///proj/bare.js'',
           Threw (OtherValue (Inl (type_error ''Cannot convert object to primitive value''))))]"

text \<open>A connection-string parser that finds the database \<open>app\<close>, or an empty name.\<close>

definition sample_parse :: "string \<Rightarrow> database_field" where
  "sample_parse c = (if c = ''postgres://localhost/'' then DbString [] else DbString ''app'')"

section \<open>Properties\<close>

subsection \<open>Auxiliary facts\<close>

lemma endsWith_iff_suffix: "endsWith s t \<longleftrightarrow> suffix t s"
proof
  assume "endsWith s t"
  then have len: "length t \<le> length s" and eq: "drop (length s - length t) s = t"
    by (auto simp: endsWith_def Let_def split: if_splits)
  have "s = take (length s - length t) s @ drop (length s - length t) s"
    by simp
  with eq have "s = take (length s - length t) s @ t"
    by simp
  then show "suffix t s"
    by (rule suffixI)
next
  assume "suffix t s"
  then obtain zs where "s = zs @ t"
    by (auto simp: suffix_def)
  then show "endsWith s t"
    by (simp add: endsWith_def Let_def)
qed

lemma exists_eq: "exists w p = ([Access p], \<not> isl (fsp_access w p))"
  by (simp add: exists_def split: sum.splits)

lemma trace_getSettingsFromJSON: "fst (getSettingsFromJSON w p) = [ReadFile p]"
  by (simp add: getSettingsFromJSON_def split: sum.splits)

lemma trace_tryRequire: "fst (tryRequire w p) = [Import (relativePath w p)]"
  by (simp add: tryRequire_def split: imported.splits sum.splits)

lemma getSettings_explicit:
  "getSettings w \<lparr>configFile = Some cf\<rparr> =
     (if isl (fsp_access w cf)
      then ([Access cf],
            Inl (Error (''Failed to import '' @ apostrophe @ cf @ apostrophe
                        @ '': file not found'')))
      else if endsWith cf ''.js'' \<or> endsWith cf ''.cjs'' \<or> endsWith cf ''.mjs''
      then (Access cf # fst (tryRequire w cf), snd (tryRequire w cf))
      else (Access cf # fst (getSettingsFromJSON w cf), snd (getSettingsFromJSON w cf)))"
  by (simp add: getSettings_def bind_io_def exists_eq split: prod.splits)

lemma getSettings_default:
  "getSettings w \<lparr>configFile = None\<rparr> =
     (if \<not> isl (fsp_access w (DEFAULT_GMRC_PATH w))
      then (Access (DEFAULT_GMRC_PATH w) # fst (getSettingsFromJSON w (DEFAULT_GMRC_PATH w)),
            snd (getSettingsFromJSON w (DEFAULT_GMRC_PATH w)))
      else if \<not> isl (fsp_access w (DEFAULT_GMRCJS_PATH w))
      then (Access (DEFAULT_GMRC_PATH w) # Access (DEFAULT_GMRCJS_PATH w)
              # fst (tryRequire w (DEFAULT_GMRCJS_PATH w)),
            snd (tryRequire w (DEFAULT_GMRCJS_PATH w)))
      else if \<not> isl (fsp_access w (DEFAULT_GMRC_COMMONJS_PATH w))
      then (Access (DEFAULT_GMRC_PATH w) # Access (DEFAULT_GMRCJS_PATH w)
              # Access (DEFAULT_GMRC_COMMONJS_PATH w)
              # fst (tryRequire w (DEFAULT_GMRC_COMMONJS_PATH w)),
            snd (tryRequire w (DEFAULT_GMRC_COMMONJS_PATH w)))
      else ([Access (DEFAULT_GMRC_PATH w), Access (DEFAULT_GMRCJS_PATH w),
             Access (DEFAULT_GMRC_COMMONJS_PATH w)],
            Inl (Error ''No .gmrc file found; please run `graphile-migrate init` first.'')))"
  by (simp add: getSettings_def bind_io_def exists_eq split: prod.splits)

lemmas sample_defs =
  sample_world_def sample_resolve_def enoent_def DEFAULT_GMRC_PATH_def DEFAULT_GMRCJS_PATH_def
  DEFAULT_GMRC_COMMONJS_PATH_def relativePath_def exists_eq tryRequire_def
  getSettingsFromJSON_def apostrophe_def newline_def cause_def import_cause_def settle_def
  module_not_found_def type_error_def

subsection \<open>The resolver with an explicit path\<close>

text \<open>
  C3. When \<open>configFile\<close> is given and its existence probe is false, \<open>getSettings\<close> fails
  at once with the message \<open>Failed to import '<configFile>': file not found\<close>, naming
  the path as the caller gave it. The probe is the only external call: no loader runs,
  whatever the suffix of the path.
\<close>

theorem explicit_missing_file_not_found:
  assumes "\<not> snd (exists w cf)"
  shows "getSettings w \<lparr>configFile = Some cf\<rparr> =
           ([Access cf],
            Inl (Error (''Failed to import '' @ [CHR 0x27] @ cf @ [CHR 0x27]
                        @ '': file not found'')))"
  using assms by (simp add: getSettings_explicit exists_eq apostrophe_def)

theorem explicit_missing_file_not_found_witness:
  "\<not> snd (exists explicit_world ''missing.js'')
   \<and> getSettings explicit_world \<lparr>configFile = Some ''missing.js''\<rparr> =
       ([Access ''missing.js''],
        Inl (Error (''Failed to import '' @ [CHR 0x27] @ ''missing.js'' @ [CHR 0x27]
                    @ '': file not found'')))
   \<and> \<not> snd (exists explicit_world ''missing.json'')
   \<and> getSettings explicit_world \<lparr>configFile = Some ''missing.json''\<rparr> =
       ([Access ''missing.json''],
        Inl (Error (''Failed to import '' @ [CHR 0x27] @ ''missing.json'' @ [CHR 0x27]
                    @ '': file not found'')))"
proof -
  have a: "\<not> snd (exists explicit_world ''missing.js'')"
    by (simp add: explicit_world_def sample_defs)
  have b: "\<not> snd (exists explicit_world ''missing.json'')"
    by (simp add: explicit_world_def sample_defs)
  show ?thesis
    using a b explicit_missing_file_not_found [OF a] explicit_missing_file_not_found [OF b]
    by simp
qed

text \<open>
  C2. When \<open>configFile\<close> is given and passes the existence probe, the module loader is
  used exactly when the path ends in \<open>.js\<close>, \<open>.cjs\<close> or \<open>.mjs\<close>, and the data loader
  otherwise; the content of the file plays no part, the environment being arbitrary.
\<close>

theorem explicit_loader_by_suffix:
  assumes "snd (exists w cf)"
  shows "(if suffix ''.js'' cf \<or> suffix ''.cjs'' cf \<or> suffix ''.mjs'' cf
          then getSettings w \<lparr>configFile = Some cf\<rparr> =
                 ([Access cf, Import (relativePath w cf)], snd (tryRequire w cf))
          else getSettings w \<lparr>configFile = Some cf\<rparr> =
                 ([Access cf, ReadFile cf], snd (getSettingsFromJSON w cf)))
         \<and> ((\<exists>u. Import u \<in> set (fst (getSettings w \<lparr>configFile = Some cf\<rparr>)))
              \<longleftrightarrow> suffix ''.js'' cf \<or> suffix ''.cjs'' cf \<or> suffix ''.mjs'' cf)
         \<and> ((\<exists>p. ReadFile p \<in> set (fst (getSettings w \<lparr>configFile = Some cf\<rparr>)))
              \<longleftrightarrow> \<not> (suffix ''.js'' cf \<or> suffix ''.cjs'' cf \<or> suffix ''.mjs'' cf))"
  using assms
  by (simp add: getSettings_explicit exists_eq endsWith_iff_suffix
      trace_tryRequire trace_getSettingsFromJSON)

theorem explicit_loader_by_suffix_witness:
  "snd (exists explicit_world ''conf.mjs'')
   \<and> suffix ''.mjs'' ''conf.mjs''
   \<and> getSettings explicit_world \<lparr>configFile = Some ''conf.mjs''\<rparr> =
       ([Access ''conf.mjs'', Import ''file:///proj/conf.mjs''], Inr (Defined 3))
   \<and> snd (exists explicit_world ''conf.json'')
   \<and> \<not> (suffix ''.js'' ''conf.json'' \<or> suffix ''.cjs'' ''conf.json''
        \<or> suffix ''.mjs'' ''conf.json'')
   \<and> getSettings explicit_world \<lparr>configFile = Some ''conf.json''\<rparr> =
       ([Access ''conf.json'', ReadFile ''conf.json''], Inr (Defined 0))"
proof -
  have a: "snd (exists explicit_world ''conf.mjs'')"
    by (simp add: explicit_world_def sample_defs)
  have b: "snd (exists explicit_world ''conf.json'')"
    by (simp add: explicit_world_def sample_defs)
  have sa: "suffix ''.mjs'' ''conf.mjs''"
    by (simp add: endsWith_iff_suffix [symmetric] endsWith_def)
  have sb: "\<not> (suffix ''.js'' ''conf.json'' \<or> suffix ''.cjs'' ''conf.json''
        \<or> suffix ''.mjs'' ''conf.json'')"
    by (simp add: endsWith_iff_suffix [symmetric] endsWith_def)
  have ra: "snd (tryRequire explicit_world ''conf.mjs'') = Inr (Defined 3)"
    by (simp add: explicit_world_def sample_defs)
  have ia: "relativePath explicit_world ''conf.mjs'' = ''file:///proj/conf.mjs''"
    by (simp add: explicit_world_def sample_defs)
  have rb: "snd (getSettingsFromJSON explicit_world ''conf.json'') = Inr (Defined 0)"
    by (simp add: explicit_world_def sample_defs)
  show ?thesis
    using a b sa sb ra ia rb
      explicit_loader_by_suffix [OF a] explicit_loader_by_suffix [OF b]
    by simp
qed

text \<open>
  C9. The suffix test is case-sensitive. A path whose ending is an upper- or mixed-case
  variant of \<open>.js\<close>, \<open>.cjs\<close> or \<open>.mjs\<close> (it lower-cases to the suffix and differs
  from it) passes none of the three tests, and when it exists it is read by the data
  loader; nothing is imported.
\<close>

theorem case_variant_suffix_is_data:
  assumes "sfx \<in> set code_suffixes" and "case_variant v sfx"
  shows "\<not> (endsWith (stem @ v) ''.js'' \<or> endsWith (stem @ v) ''.cjs''
             \<or> endsWith (stem @ v) ''.mjs'')
         \<and> (snd (exists w (stem @ v)) \<longrightarrow>
              getSettings w \<lparr>configFile = Some (stem @ v)\<rparr> =
                ([Access (stem @ v), ReadFile (stem @ v)],
                 snd (getSettingsFromJSON w (stem @ v))))"
proof -
  have low: "map to_lower v = sfx" and ne: "v \<noteq> sfx"
    using assms(2) by (simp_all add: case_variant_def)
  have len: "length v = length sfx"
    using low by (metis length_map)
  have fixed: "to_lower CHR ''.'' = CHR ''.''" "to_lower CHR ''c'' = CHR ''c''"
    "to_lower CHR ''m'' = CHR ''m''" "to_lower CHR ''j'' = CHR ''j''"
    "to_lower CHR ''s'' = CHR ''s''"
    by (simp_all add: to_lower_def)
  have short: "\<not> suffix t (stem @ v)"
    if t: "t \<in> set code_suffixes" and le: "length t \<le> length v"
      and clash: "\<And>u. v = u @ t \<Longrightarrow> False" for t
  proof
    assume "suffix t (stem @ v)"
    then have "suffix t v"
      using le by (auto simp: suffix_append)
    then obtain u where "v = u @ t"
      by (auto simp: suffix_def)
    then show False
      by (rule clash)
  qed
  have none: "\<not> suffix t (stem @ v)" if t: "t \<in> set code_suffixes" for t
  proof (cases "length t \<le> length v")
    case True
    show ?thesis
    proof (rule short [OF t True])
      fix u assume v: "v = u @ t"
      from t have t_low: "map to_lower t = t"
        by (auto simp: code_suffixes_def fixed)
      from assms(1) t len v low ne t_low show False
        by (auto simp: code_suffixes_def fixed)
    qed
  next
    case False
    with assms(1) t len have v4: "sfx = ''.js''" and t4: "length t = 4"
      by (auto simp: code_suffixes_def)
    from v4 low obtain a b c where v: "v = [a, b, c]" and c: "to_lower c = CHR ''s''"
      and b: "to_lower b = CHR ''j''" and a: "to_lower a = CHR ''.''"
      by (cases v) (auto simp: Cons_eq_map_conv)
    show ?thesis
    proof
      assume "suffix t (stem @ v)"
      then obtain zs where zs: "stem @ v = zs @ t"
        by (auto simp: suffix_def)
      from t t4 have t': "t = ''.cjs'' \<or> t = ''.mjs''"
        by (auto simp: code_suffixes_def)
      from t' zs v have "a = CHR ''c'' \<or> a = CHR ''m''"
        by (auto simp: append_eq_append_conv2 append_eq_Cons_conv Cons_eq_append_conv)
      with a fixed show False
        by auto
    qed
  qed
  have data: "\<not> (endsWith (stem @ v) ''.js'' \<or> endsWith (stem @ v) ''.cjs''
             \<or> endsWith (stem @ v) ''.mjs'')"
    using none [of "''.js''"] none [of "''.cjs''"] none [of "''.mjs''"]
    by (simp add: endsWith_iff_suffix code_suffixes_def)
  then show ?thesis
    by (simp add: getSettings_explicit exists_eq trace_getSettingsFromJSON)
qed

theorem case_variant_suffix_is_data_witness:
  "''.js'' \<in> set code_suffixes \<and> case_variant ''.JS'' ''.js''
   \<and> snd (exists explicit_world (''conf'' @ ''.JS''))
   \<and> \<not> endsWith (''conf'' @ ''.JS'') ''.js''
   \<and> getSettings explicit_world \<lparr>configFile = Some (''conf'' @ ''.JS'')\<rparr> =
       ([Access ''conf.JS'', ReadFile ''conf.JS''], Inr (Defined 0))"
proof -
  have a: "''.js'' \<in> set code_suffixes"
    by (simp add: code_suffixes_def)
  have b: "case_variant ''.JS'' ''.js''"
    by (simp add: case_variant_def to_lower_def)
  have c: "snd (exists explicit_world (''conf'' @ ''.JS''))"
    by (simp add: explicit_world_def sample_defs)
  have d: "snd (getSettingsFromJSON explicit_world (''conf'' @ ''.JS'')) = Inr (Defined 0)"
    by (simp add: explicit_world_def sample_defs)
  show ?thesis
    using a b c d case_variant_suffix_is_data [OF a b, of "''conf''" explicit_world]
    by simp
qed

subsection \<open>The resolver without an explicit path\<close>

text \<open>
  C1. Without \<open>configFile\<close> the defaults are probed in the order \<open>.gmrc\<close>, \<open>.gmrc.js\<close>,
  \<open>.gmrc.cjs\<close> (under the working directory of module evaluation). The first one
  whose probe is true is the only one loaded, \<open>.gmrc\<close> by the data loader and the other
  two by the module loader, and the trace ends there: no later default is probed or
  loaded.
\<close>

theorem default_locations_strict_precedence:
  "(snd (exists w (load_cwd w @ ''/.gmrc'')) \<longrightarrow>
      getSettings w \<lparr>configFile = None\<rparr> =
        ([Access (load_cwd w @ ''/.gmrc''), ReadFile (load_cwd w @ ''/.gmrc'')],
         snd (getSettingsFromJSON w (load_cwd w @ ''/.gmrc''))))
   \<and> (\<not> snd (exists w (load_cwd w @ ''/.gmrc''))
        \<and> snd (exists w (load_cwd w @ ''/.gmrc.js'')) \<longrightarrow>
      getSettings w \<lparr>configFile = None\<rparr> =
        ([Access (load_cwd w @ ''/.gmrc''), Access (load_cwd w @ ''/.gmrc.js''),
          Import (relativePath w (load_cwd w @ ''/.gmrc.js''))],
         snd (tryRequire w (load_cwd w @ ''/.gmrc.js''))))
   \<and> (\<not> snd (exists w (load_cwd w @ ''/.gmrc''))
        \<and> \<not> snd (exists w (load_cwd w @ ''/.gmrc.js''))
        \<and> snd (exists w (load_cwd w @ ''/.gmrc.cjs'')) \<longrightarrow>
      getSettings w \<lparr>configFile = None\<rparr> =
        ([Access (load_cwd w @ ''/.gmrc''), Access (load_cwd w @ ''/.gmrc.js''),
          Access (load_cwd w @ ''/.gmrc.cjs''),
          Import (relativePath w (load_cwd w @ ''/.gmrc.cjs''))],
         snd (tryRequire w (load_cwd w @ ''/.gmrc.cjs''))))
   \<and> prefix (filter is_probe (fst (getSettings w \<lparr>configFile = None\<rparr>)))
         [Access (load_cwd w @ ''/.gmrc''), Access (load_cwd w @ ''/.gmrc.js''),
          Access (load_cwd w @ ''/.gmrc.cjs'')]
   \<and> length (filter is_load (fst (getSettings w \<lparr>configFile = None\<rparr>))) \<le> 1"
  by (simp add: getSettings_default exists_eq DEFAULT_GMRC_PATH_def
      DEFAULT_GMRCJS_PATH_def DEFAULT_GMRC_COMMONJS_PATH_def
      trace_tryRequire trace_getSettingsFromJSON)

theorem default_locations_strict_precedence_witness:
  "snd (exists both_world (load_cwd both_world @ ''/.gmrc''))
   \<and> snd (exists both_world (load_cwd both_world @ ''/.gmrc.js''))
   \<and> getSettings both_world \<lparr>configFile = None\<rparr> =
       ([Access ''/proj/.gmrc'', ReadFile ''/proj/.gmrc''], Inr (Defined 0))
   \<and> \<not> snd (exists js_world (load_cwd js_world @ ''/.gmrc''))
   \<and> snd (exists js_world (load_cwd js_world @ ''/.gmrc.js''))
   \<and> getSettings js_world \<lparr>configFile = None\<rparr> =
       ([Access ''/proj/.gmrc'', Access ''/proj/.gmrc.js'', Import ''file:///proj/.gmrc.js''],
        Inr (Defined 1))
   \<and> \<not> snd (exists cjs_world (load_cwd cjs_world @ ''/.gmrc''))
   \<and> \<not> snd (exists cjs_world (load_cwd cjs_world @ ''/.gmrc.js''))
   \<and> snd (exists cjs_world (load_cwd cjs_world @ ''/.gmrc.cjs''))
   \<and> getSettings cjs_world \<lparr>configFile = None\<rparr> =
       ([Access ''/proj/.gmrc'', Access ''/proj/.gmrc.js'', Access ''/proj/.gmrc.cjs'',
         Import ''file:///proj/.gmrc.cjs''],
        Inr (Defined 2))"
proof -
  have a: "snd (exists both_world (load_cwd both_world @ ''/.gmrc''))"
    "snd (exists both_world (load_cwd both_world @ ''/.gmrc.js''))"
    "snd (getSettingsFromJSON both_world (load_cwd both_world @ ''/.gmrc'')) = Inr (Defined 0)"
    "load_cwd both_world = ''/proj''"
    by (simp_all add: both_world_def sample_defs)
  have b: "\<not> snd (exists js_world (load_cwd js_world @ ''/.gmrc''))"
    "snd (exists js_world (load_cwd js_world @ ''/.gmrc.js''))"
    "snd (tryRequire js_world (load_cwd js_world @ ''/.gmrc.js'')) = Inr (Defined 1)"
    "relativePath js_world (load_cwd js_world @ ''/.gmrc.js'') = ''file:///proj/.gmrc.js''"
    "load_cwd js_world = ''/proj''"
    by (simp_all add: js_world_def sample_defs)
  have c: "\<not> snd (exists cjs_world (load_cwd cjs_world @ ''/.gmrc''))"
    "\<not> snd (exists cjs_world (load_cwd cjs_world @ ''/.gmrc.js''))"
    "snd (exists cjs_world (load_cwd cjs_world @ ''/.gmrc.cjs''))"
    "snd (tryRequire cjs_world (load_cwd cjs_world @ ''/.gmrc.cjs'')) = Inr (Defined 2)"
    "relativePath cjs_world (load_cwd cjs_world @ ''/.gmrc.cjs'') = ''file:///proj/.gmrc.cjs''"
    "load_cwd cjs_world = ''/proj''"
    by (simp_all add: cjs_world_def sample_defs)
  show ?thesis
    using a b c default_locations_strict_precedence [of both_world]
      default_locations_strict_precedence [of js_world]
      default_locations_strict_precedence [of cjs_world]
    by simp
qed

text \<open>
  C8, as the source has it. Without \<open>configFile\<close> and with none of the three defaults
  existing, \<open>getSettings\<close> fails after the three probes, and the message names the
  command to run: \<open>No .gmrc file found; please run `graphile-migrate init` first.\<close>
\<close>

theorem no_default_found_message:
  assumes "\<not> snd (exists w (load_cwd w @ ''/.gmrc''))"
    and "\<not> snd (exists w (load_cwd w @ ''/.gmrc.js''))"
    and "\<not> snd (exists w (load_cwd w @ ''/.gmrc.cjs''))"
  shows "getSettings w \<lparr>configFile = None\<rparr> =
           ([Access (load_cwd w @ ''/.gmrc''), Access (load_cwd w @ ''/.gmrc.js''),
             Access (load_cwd w @ ''/.gmrc.cjs'')],
            Inl (Error ''No .gmrc file found; please run `graphile-migrate init` first.''))"
  using assms
  by (simp add: getSettings_default exists_eq DEFAULT_GMRC_PATH_def
      DEFAULT_GMRCJS_PATH_def DEFAULT_GMRC_COMMONJS_PATH_def)

theorem no_default_found_message_witness:
  "\<not> snd (exists empty_world (load_cwd empty_world @ ''/.gmrc''))
   \<and> \<not> snd (exists empty_world (load_cwd empty_world @ ''/.gmrc.js''))
   \<and> \<not> snd (exists empty_world (load_cwd empty_world @ ''/.gmrc.cjs''))
   \<and> getSettings empty_world \<lparr>configFile = None\<rparr> =
       ([Access ''/proj/.gmrc'', Access ''/proj/.gmrc.js'', Access ''/proj/.gmrc.cjs''],
        Inl (Error ''No .gmrc file found; please run `graphile-migrate init` first.''))"
proof -
  have a: "\<not> snd (exists empty_world (load_cwd empty_world @ ''/.gmrc''))"
    by (simp add: empty_world_def sample_defs)
  have b: "\<not> snd (exists empty_world (load_cwd empty_world @ ''/.gmrc.js''))"
    by (simp add: empty_world_def sample_defs)
  have c: "\<not> snd (exists empty_world (load_cwd empty_world @ ''/.gmrc.cjs''))"
    by (simp add: empty_world_def sample_defs)
  have d: "load_cwd empty_world = ''/proj''"
    by (simp add: empty_world_def sample_defs)
  show ?thesis
    using a b c d no_default_found_message [OF a b c]
    by simp
qed

text \<open>
  The message of C8 as the specification words it is not the message of the source:
  with nothing on disk the call fails with the text above, which differs from
  \<open>No .gmrc file found; please run the init command first.\<close>
\<close>

theorem no_default_found_message_counterexample:
  "\<not> snd (exists empty_world (DEFAULT_GMRC_PATH empty_world))
   \<and> \<not> snd (exists empty_world (DEFAULT_GMRCJS_PATH empty_world))
   \<and> \<not> snd (exists empty_world (DEFAULT_GMRC_COMMONJS_PATH empty_world))
   \<and> snd (getSettings empty_world \<lparr>configFile = None\<rparr>) =
       Inl (Error ''No .gmrc file found; please run `graphile-migrate init` first.'')
   \<and> snd (getSettings empty_world \<lparr>configFile = None\<rparr>) \<noteq>
       Inl (Error ''No .gmrc file found; please run the init command first.'')"
  by (simp add: getSettings_default empty_world_def sample_defs)

subsection \<open>getDatabaseName\<close>

text \<open>
  C10. \<open>getDatabaseName\<close> throws \<open>Could not determine database name from connection
  string.\<close> when the parsed \<open>database\<close> field is undefined, null or the empty string,
  and returns the field unchanged when it is a non-empty string.
\<close>

theorem getDatabaseName_empty_is_absent:
  "(parse cs = DbUndefined \<or> parse cs = DbNull \<or> parse cs = DbString [] \<longrightarrow>
      getDatabaseName parse cs =
        Inl (Error ''Could not determine database name from connection string.''))
   \<and> (\<forall>s. parse cs = DbString s \<and> s \<noteq> [] \<longrightarrow> getDatabaseName parse cs = Inr s)"
  by (auto simp: getDatabaseName_def Let_def)

theorem getDatabaseName_empty_is_absent_witness:
  "sample_parse ''postgres://localhost/'' = DbString []
   \<and> getDatabaseName sample_parse ''postgres://localhost/'' =
       Inl (Error ''Could not determine database name from connection string.'')
   \<and> sample_parse ''postgres://localhost/app'' = DbString ''app''
   \<and> getDatabaseName sample_parse ''postgres://localhost/app'' = Inr ''app''"
proof -
  have a: "sample_parse ''postgres://localhost/'' = DbString []"
    by (simp add: sample_parse_def)
  have b: "sample_parse ''postgres://localhost/app'' = DbString ''app''"
    by (simp add: sample_parse_def)
  show ?thesis
    using a b getDatabaseName_empty_is_absent [of sample_parse "''postgres://localhost/''"]
      getDatabaseName_empty_is_absent [of sample_parse "''postgres://localhost/app''"]
    by simp
qed

subsection \<open>The two loaders\<close>

text \<open>
  C6. \<open>getSettingsFromJSON\<close> fails with \<open>Failed to read '<path>': <cause>\<close> when the
  file cannot be read and with \<open>Failed to parse '<path>': <cause>\<close> when its content
  does not parse, the cause being the message of a caught \<open>Error\<close> and the string form
  of any other caught value. When both steps succeed the parsed value is returned as it
  is. A read failure and a parse failure never carry the same message, whatever the
  paths and the causes.
\<close>

theorem getSettingsFromJSON_outcomes:
  "(\<forall>e. fsp_readFile w path = Inl e \<longrightarrow>
      snd (getSettingsFromJSON w path) =
        Inl (Error (''Failed to read '' @ [CHR 0x27] @ path @ [CHR 0x27] @ '': '' @ cause e)))
   \<and> (\<forall>d e. fsp_readFile w path = Inr d \<and> JSON5_parse w d = Inl e \<longrightarrow>
      snd (getSettingsFromJSON w path) =
        Inl (Error (''Failed to parse '' @ [CHR 0x27] @ path @ [CHR 0x27] @ '': '' @ cause e)))
   \<and> (\<forall>d v. fsp_readFile w path = Inr d \<and> JSON5_parse w d = Inr v \<longrightarrow>
      snd (getSettingsFromJSON w path) = Inr v)
   \<and> (\<forall>w' path' e d e'. fsp_readFile w path = Inl e \<and> fsp_readFile w' path' = Inr d
         \<and> JSON5_parse w' d = Inl e' \<longrightarrow>
      snd (getSettingsFromJSON w path) \<noteq> snd (getSettingsFromJSON w' path'))"
  by (simp add: getSettingsFromJSON_def apostrophe_def)

theorem getSettingsFromJSON_outcomes_witness:
  "fsp_readFile explicit_world ''missing.json'' = Inl enoent
   \<and> snd (getSettingsFromJSON explicit_world ''missing.json'') =
       Inl (Error (''Failed to read '' @ [CHR 0x27] @ ''missing.json'' @ [CHR 0x27] @ '': ''
                   @ ''ENOENT: no such file or directory''))
   \<and> fsp_readFile explicit_world ''bad.json'' = Inr ''{''
   \<and> JSON5_parse explicit_world ''{'' =
       Inl (ErrorObject ''JSON5: invalid character'' None
              ''SyntaxError: JSON5: invalid character'')
   \<and> snd (getSettingsFromJSON explicit_world ''bad.json'') =
       Inl (Error (''Failed to parse '' @ [CHR 0x27] @ ''bad.json'' @ [CHR 0x27] @ '': ''
                   @ ''JSON5: invalid character''))
   \<and> fsp_readFile explicit_world ''conf.json'' = Inr ''{}''
   \<and> JSON5_parse explicit_world ''{}'' = Inr (Defined 0)
   \<and> snd (getSettingsFromJSON explicit_world ''conf.json'') = Inr (Defined 0)"
proof -
  have a: "fsp_readFile explicit_world ''missing.json'' = Inl enoent"
    "fsp_readFile explicit_world ''bad.json'' = Inr ''{''"
    "JSON5_parse explicit_world ''{'' =
       Inl (ErrorObject ''JSON5: invalid character'' None
              ''SyntaxError: JSON5: invalid character'')"
    "fsp_readFile explicit_world ''conf.json'' = Inr ''{}''"
    "JSON5_parse explicit_world ''{}'' = Inr (Defined 0)"
    by (simp_all add: explicit_world_def sample_world_def)
  have b: "cause enoent = ''ENOENT: no such file or directory''"
    "cause (ErrorObject ''JSON5: invalid character'' None
              ''SyntaxError: JSON5: invalid character'') = ''JSON5: invalid character''"
    by (simp_all add: cause_def enoent_def)
  show ?thesis
    using a b getSettingsFromJSON_outcomes [of explicit_world "''missing.json''"]
      getSettingsFromJSON_outcomes [of explicit_world "''bad.json''"]
      getSettingsFromJSON_outcomes [of explicit_world "''conf.json''"]
    by simp
qed

text \<open>
  C4, as the source has it. \<open>tryRequire\<close> fails with the \<open>Failed to import\<close> message
  exactly when \<open>import()\<close> itself throws (a syntax error, an error while the module is
  evaluated, a file that is not there) and the cause can be rendered as text; a throw
  while rendering the cause escapes as it is. A module that loads never gives this
  failure: a default export that is missing (\<open>undefined\<close>), like any other value that
  is not a thenable, is returned as it is, without any check; a thenable default export
  is adopted, so the value it is fulfilled with is returned, its rejection escapes as it
  is, and a pending one leaves the call unsettled.
\<close>

theorem tryRequire_fails_iff_import_throws:
  "((\<exists>msg. snd (tryRequire w path) = Inl (Error msg)) \<longleftrightarrow>
      (\<exists>e text. dynamic_import w (relativePath w path) = Threw e \<and> import_cause e = Inr text))
   \<and> (\<forall>e text. dynamic_import w (relativePath w path) = Threw e \<and> import_cause e = Inr text
        \<longrightarrow> snd (tryRequire w path) =
          Inl (Error (''Failed to import '' @ [CHR 0x27] @ relativePath w path @ [CHR 0x27]
                      @ ''; error:'' @ [CHR 0x0A] @ ''    '' @ text)))
   \<and> (\<forall>e x. dynamic_import w (relativePath w path) = Threw e \<and> import_cause e = Inl x
        \<longrightarrow> snd (tryRequire w path) = Inl (Raw x))
   \<and> (dynamic_import w (relativePath w path) = Hangs
        \<longrightarrow> snd (tryRequire w path) = Inl NeverSettles)
   \<and> (\<forall>m v. dynamic_import w (relativePath w path) = Loaded m \<and> default m = Plain v
        \<longrightarrow> snd (tryRequire w path) = Inr v)
   \<and> (\<forall>m v. dynamic_import w (relativePath w path) = Loaded m
          \<and> default m = Thenable (Fulfilled v)
        \<longrightarrow> snd (tryRequire w path) = Inr v)
   \<and> (\<forall>m x. dynamic_import w (relativePath w path) = Loaded m
          \<and> default m = Thenable (Rejected x)
        \<longrightarrow> snd (tryRequire w path) = Inl (Raw x))
   \<and> (\<forall>m. dynamic_import w (relativePath w path) = Loaded m \<and> default m = Thenable Pending
        \<longrightarrow> snd (tryRequire w path) = Inl NeverSettles)"
  by (auto simp: tryRequire_def settle_def apostrophe_def newline_def
      split: imported.splits sum.splits exported.splits settlement.splits)

theorem tryRequire_fails_iff_import_throws_witness:
  "dynamic_import explicit_world (relativePath explicit_world ''missing.js'') =
     Threw module_not_found
   \<and> import_cause module_not_found = Inr ''Error: Cannot find module''
   \<and> snd (tryRequire explicit_world ''missing.js'') =
       Inl (Error (''Failed to import '' @ [CHR 0x27] @ ''file:///proj/missing.js''
                   @ [CHR 0x27] @ ''; error:'' @ [CHR 0x0A] @ ''    ''
                   @ ''Error: Cannot find module''))
   \<and> dynamic_import explicit_world (relativePath explicit_world ''conf.mjs'') =
       Loaded \<lparr>default = Plain (Defined 3)\<rparr>
   \<and> snd (tryRequire explicit_world ''conf.mjs'') = Inr (Defined 3)
   \<and> dynamic_import explicit_world (relativePath explicit_world ''later.js'') =
       Loaded \<lparr>default = Thenable (Fulfilled (Defined 4))\<rparr>
   \<and> snd (tryRequire explicit_world ''later.js'') = Inr (Defined 4)
   \<and> dynamic_import explicit_world (relativePath explicit_world ''rejects.js'') =
       Loaded \<lparr>default = Thenable (Rejected (OtherValue (Inr ''0'')))\<rparr>
   \<and> snd (tryRequire explicit_world ''rejects.js'') = Inl (Raw (OtherValue (Inr ''0'')))
   \<and> dynamic_import explicit_world (relativePath explicit_world ''pending.js'') =
       Loaded \<lparr>default = Thenable Pending\<rparr>
   \<and> snd (tryRequire explicit_world ''pending.js'') = Inl NeverSettles
   \<and> dynamic_import explicit_world (relativePath explicit_world ''bare.js'') =
       Threw (OtherValue (Inl (type_error ''Cannot convert object to primitive value'')))
   \<and> import_cause (OtherValue (Inl (type_error ''Cannot convert object to primitive value'')))
       = Inl (type_error ''Cannot convert object to primitive value'')
   \<and> snd (tryRequire explicit_world ''bare.js'') =
       Inl (Raw (type_error ''Cannot convert object to primitive value''))"
proof -
  have r: "relativePath explicit_world ''missing.js'' = ''file:///proj/missing.js''"
    by (simp add: explicit_world_def sample_world_def sample_resolve_def relativePath_def)
  have a: "dynamic_import explicit_world (relativePath explicit_world ''missing.js'') =
      Threw module_not_found"
    "dynamic_import explicit_world (relativePath explicit_world ''conf.mjs'') =
      Loaded \<lparr>default = Plain (Defined 3)\<rparr>"
    "dynamic_import explicit_world (relativePath explicit_world ''later.js'') =
      Loaded \<lparr>default = Thenable (Fulfilled (Defined 4))\<rparr>"
    "dynamic_import explicit_world (relativePath explicit_world ''rejects.js'') =
      Loaded \<lparr>default = Thenable (Rejected (OtherValue (Inr ''0'')))\<rparr>"
    "dynamic_import explicit_world (relativePath explicit_world ''pending.js'') =
      Loaded \<lparr>default = Thenable Pending\<rparr>"
    "dynamic_import explicit_world (relativePath explicit_world ''bare.js'') =
      Threw (OtherValue (Inl (type_error ''Cannot convert object to primitive value'')))"
    by (simp_all add: explicit_world_def sample_world_def sample_resolve_def relativePath_def)
  have c: "import_cause module_not_found = Inr ''Error: Cannot find module''"
    "import_cause (OtherValue (Inl (type_error ''Cannot convert object to primitive value'')))
       = Inl (type_error ''Cannot convert object to primitive value'')"
    by (simp_all add: import_cause_def module_not_found_def newline_def)
  show ?thesis
    using r a c tryRequire_fails_iff_import_throws [of explicit_world "''missing.js''"]
      tryRequire_fails_iff_import_throws [of explicit_world "''conf.mjs''"]
      tryRequire_fails_iff_import_throws [of explicit_world "''later.js''"]
      tryRequire_fails_iff_import_throws [of explicit_world "''rejects.js''"]
      tryRequire_fails_iff_import_throws [of explicit_world "''pending.js''"]
      tryRequire_fails_iff_import_throws [of explicit_world "''bare.js''"]
    by simp
qed

text \<open>
  A module without a default export is not a failure of \<open>tryRequire\<close>: importing
  \<open>empty.js\<close> succeeds with \<open>default\<close> undefined, and the call returns \<open>undefined\<close>.
\<close>

theorem tryRequire_missing_default_counterexample:
  "dynamic_import explicit_world (relativePath explicit_world ''empty.js'') =
     Loaded \<lparr>default = Plain Undefined\<rparr>
   \<and> tryRequire explicit_world ''empty.js'' = ([Import ''file:///proj/empty.js''], Inr Undefined)
   \<and> \<not> isl (snd (tryRequire explicit_world ''empty.js''))"
  by (simp add: explicit_world_def sample_defs)




subsection \<open>One location per call\<close>











end
